theory Spec2Isabelle
  imports Main "HOL-Library.Sublist"
begin

section \<open>Configuration and application state\<close>

text \<open>
  The repository holds three revisions of one browser script: the unnamed file
  (\<^verbatim>\<open>src/unnamed/part_000\<close>), the first document of \<^verbatim>\<open>src/script.js\<close> and the second,
  older document of \<^verbatim>\<open>src/script.js\<close>. Of the unnamed file the state, the reset, the
  colour conversion, the builder, the result of the dialog and the click handler are
  embedded; what works on the page only (the rendering, the \<^verbatim>\<open>active\<close> class of the
  buttons, the filling of the dialog's inputs) is left out. The two documents of
  \<^verbatim>\<open>script.js\<close> have the same click handler and the same reset; the places where their
  \<^verbatim>\<open>buildAsset\<close> differs are embedded next to the main one.

  Strings are byte lists holding the UTF-8 form of the JavaScript string; a surrogate
  code unit that has no partner is written as the three bytes of its own code point (ED,
  then a byte from A0 to BF, then one more), which the UTF-8 form of a well-formed string
  never holds. Numbers are integers. A thrown exception is the left summand of a result.
  The script has no \<^verbatim>\<open>try\<close> and validates no input, so an exception thrown in
  \<^verbatim>\<open>buildAsset\<close> ends the handler that called it. An object literal whose shape is
  fixed is a record or a datatype; the object returned by \<^verbatim>\<open>buildAsset\<close> is an
  association list of property names and values, so that asking for a property it does
  not have is a lookup that finds nothing.
\<close>

definition CLOUD_NAME :: string where
  "CLOUD_NAME = ''demo''"

definition PUBLIC_ID :: string where
  "PUBLIC_ID = ''sample''"

record frame =
  w :: int
  h :: int

definition FRAME_WIDE :: frame where
  "FRAME_WIDE = \<lparr>w = 500, h = 333\<rparr>"

definition FRAME_SQUARE :: frame where
  "FRAME_SQUARE = \<lparr>w = 333, h = 333\<rparr>"

record state =
  "text" :: bool
  square :: bool
  toon :: bool
  sepia :: bool
  gray :: bool
  video :: bool
  enhance :: bool
  textContent :: string
  textColor :: string

text \<open>The object \<^verbatim>\<open>state\<close> as the script creates it at startup.\<close>

definition initial_state :: state where
  "initial_state = \<lparr>text = False, square = False, toon = False, sepia = False,
     gray = False, video = False, enhance = False,
     textContent = ''Hello World!'', textColor = ''#ffffff''\<rparr>"

text \<open>
  The names of the boolean toggles. A button's \<^verbatim>\<open>data-effect\<close> attribute names one of
  them (the markup is not part of the sources; the handler indexes \<^verbatim>\<open>state\<close> with the
  attribute). \<^verbatim>\<open>state[k]\<close> is \<open>get_flag\<close>, \<^verbatim>\<open>state[k] = v\<close> is \<open>set_flag\<close>.
\<close>

datatype flag = Text | Square | Toon | Sepia | Gray | Video | Enhance

fun get_flag :: "state \<Rightarrow> flag \<Rightarrow> bool" where
  "get_flag s Text = text s"
| "get_flag s Square = square s"
| "get_flag s Toon = toon s"
| "get_flag s Sepia = sepia s"
| "get_flag s Gray = gray s"
| "get_flag s Video = video s"
| "get_flag s Enhance = enhance s"

fun set_flag :: "flag \<Rightarrow> bool \<Rightarrow> state \<Rightarrow> state" where
  "set_flag Text v s = s\<lparr>text := v\<rparr>"
| "set_flag Square v s = s\<lparr>square := v\<rparr>"
| "set_flag Toon v s = s\<lparr>toon := v\<rparr>"
| "set_flag Sepia v s = s\<lparr>sepia := v\<rparr>"
| "set_flag Gray v s = s\<lparr>gray := v\<rparr>"
| "set_flag Video v s = s\<lparr>video := v\<rparr>"
| "set_flag Enhance v s = s\<lparr>enhance := v\<rparr>"

text \<open>
  \<^verbatim>\<open>Object.keys(state)\<close>, in the order the literal declares the properties: the seven
  toggles, then the two saved strings.
\<close>

datatype key = Flag flag | TextContent | TextColor

definition state_keys :: "key list" where
  "state_keys = [Flag Text, Flag Square, Flag Toon, Flag Sepia, Flag Gray, Flag Video,
     Flag Enhance, TextContent, TextColor]"

text \<open>
  \<^verbatim>\<open>resetToggles\<close>: the loop over the keys returns early on the two saved strings and
  stores \<^verbatim>\<open>false\<close> under every other key. (The loop over the buttons that clears their
  \<^verbatim>\<open>active\<close> class touches the page only.)
\<close>

fun reset_key :: "key \<Rightarrow> state \<Rightarrow> state" where
  "reset_key TextContent s = s"
| "reset_key TextColor s = s"
| "reset_key (Flag k) s = set_flag k False s"

definition resetToggles :: "state \<Rightarrow> state" where
  "resetToggles s = fold reset_key state_keys s"

section \<open>Colour conversion\<close>

text \<open>
  \<^verbatim>\<open>toCloudinaryColor(value)\<close> of the unnamed file. The argument is \<open>None\<close> for an absent
  value (\<^verbatim>\<open>undefined\<close> or \<^verbatim>\<open>null\<close>); the empty string is falsy as well.
\<close>

fun toCloudinaryColor :: "string option \<Rightarrow> string" where
  "toCloudinaryColor None = ''white''"
| "toCloudinaryColor (Some []) = ''white''"
| "toCloudinaryColor (Some (c # rest)) =
     (if c = CHR ''#'' then ''rgb:'' @ rest else c # rest)"

text \<open>
  The second document of \<^verbatim>\<open>script.js\<close> writes the conversion inline:
  \<^verbatim>\<open>(c && c.startsWith("#")) ? `rgb:${c.slice(1)}` : (c || "white")\<close>.
\<close>

definition overlayColor2 :: "state \<Rightarrow> string" where
  "overlayColor2 s =
     (if textColor s \<noteq> [] \<and> hd (textColor s) = CHR ''#'' then ''rgb:'' @ tl (textColor s)
      else if textColor s \<noteq> [] then textColor s else ''white'')"

section \<open>Browser built-ins used by the script\<close>

datatype error = URIError

text \<open>
  A string holds a lone surrogate when the byte ED is followed by a byte from A0 to BF.
\<close>

fun lone_surrogate :: "string \<Rightarrow> bool" where
  "lone_surrogate (a # b # cs) =
     (((of_char a :: nat) = 0xED \<and> 0xA0 \<le> (of_char b :: nat) \<and> (of_char b :: nat) \<le> 0xBF)
      \<or> lone_surrogate (b # cs))"
| "lone_surrogate [a] = False"
| "lone_surrogate [] = False"

text \<open>
  \<^verbatim>\<open>encodeURIComponent\<close>: it throws \<^verbatim>\<open>URIError\<close> on a string with a lone surrogate. On
  any other string it works on the UTF-8 bytes: the unreserved characters (letters,
  digits and \<^verbatim>\<open>- _ . ! ~ * ' ( )\<close>) stay, every other byte becomes a percent sign and
  two upper-case hexadecimal digits.
\<close>

definition unreserved :: "char \<Rightarrow> bool" where
  "unreserved c = (let n = (of_char c :: nat) in
     (65 \<le> n \<and> n \<le> 90) \<or> (97 \<le> n \<and> n \<le> 122) \<or> (48 \<le> n \<and> n \<le> 57)
     \<or> c \<in> set ''-_.!~*()'' \<or> n = 39)"

definition hexdigit :: "nat \<Rightarrow> char" where
  "hexdigit n = ''0123456789ABCDEF'' ! (n mod 16)"

definition encode_byte :: "char \<Rightarrow> string" where
  "encode_byte c = (if unreserved c then [c]
     else [CHR ''%'', hexdigit (of_char c div 16), hexdigit (of_char c)])"

definition encodeURIComponent :: "string \<Rightarrow> error + string" where
  "encodeURIComponent s =
     (if lone_surrogate s then Inl URIError else Inr (concat (map encode_byte s)))"

text \<open>
  \<^verbatim>\<open>String.prototype.trim\<close>: white space and line terminators are removed at both ends.
  In UTF-8 these are the single bytes 9 to 13 and 32, the pair C2 A0 (U+00A0), and the
  triples of U+1680, U+2000 to U+200A, U+2028, U+2029, U+202F, U+205F, U+3000 and U+FEFF.
\<close>

definition ws1 :: "char \<Rightarrow> bool" where
  "ws1 a = (let n = (of_char a :: nat) in (9 \<le> n \<and> n \<le> 13) \<or> n = 32)"

definition ws2 :: "char \<Rightarrow> char \<Rightarrow> bool" where
  "ws2 a b = ((of_char a :: nat) = 0xC2 \<and> (of_char b :: nat) = 0xA0)"

definition ws3 :: "char \<Rightarrow> char \<Rightarrow> char \<Rightarrow> bool" where
  "ws3 a b c = (let x = (of_char a :: nat); y = (of_char b :: nat); z = (of_char c :: nat) in
     (x = 0xE1 \<and> y = 0x9A \<and> z = 0x80)
     \<or> (x = 0xE2 \<and> y = 0x80 \<and> ((0x80 \<le> z \<and> z \<le> 0x8A) \<or> z = 0xA8 \<or> z = 0xA9 \<or> z = 0xAF))
     \<or> (x = 0xE2 \<and> y = 0x81 \<and> z = 0x9F)
     \<or> (x = 0xE3 \<and> y = 0x80 \<and> z = 0x80)
     \<or> (x = 0xEF \<and> y = 0xBB \<and> z = 0xBF))"

fun trimStart :: "string \<Rightarrow> string" where
  "trimStart (a # b # c # cs) =
     (if ws1 a then trimStart (b # c # cs)
      else if ws2 a b then trimStart (c # cs)
      else if ws3 a b c then trimStart cs
      else a # b # c # cs)"
| "trimStart [a, b] = (if ws1 a then trimStart [b] else if ws2 a b then [] else [a, b])"
| "trimStart [a] = (if ws1 a then [] else [a])"
| "trimStart [] = []"

text \<open>The same from the other end, on the reversed byte list.\<close>

fun trimStart_rev :: "string \<Rightarrow> string" where
  "trimStart_rev (c # b # a # cs) =
     (if ws1 c then trimStart_rev (b # a # cs)
      else if ws2 b c then trimStart_rev (a # cs)
      else if ws3 a b c then trimStart_rev cs
      else c # b # a # cs)"
| "trimStart_rev [b, a] = (if ws1 b then trimStart_rev [a] else if ws2 a b then [] else [b, a])"
| "trimStart_rev [a] = (if ws1 a then [] else [a])"
| "trimStart_rev [] = []"

definition trimEnd :: "string \<Rightarrow> string" where
  "trimEnd s = rev (trimStart_rev (rev s))"

definition trim :: "string \<Rightarrow> string" where
  "trim s = trimEnd (trimStart s)"

section \<open>The asset builder\<close>

text \<open>
  One entry of the list handed to the SDK's \<^verbatim>\<open>transformationStringFromObject\<close>:
  \<^verbatim>\<open>{effect: e}\<close>, \<^verbatim>\<open>{overlay: o, color: c}\<close> or \<^verbatim>\<open>{flags: f, gravity: g, y: n}\<close>.
\<close>

datatype step = Effect string | Overlay string string | Flags string string int

text \<open>
  The SDK is not part of the repository, so what the script asks of it is recorded and
  not rendered: an asset is the cloud name, the public id and the transformations added
  to it, in order. \<open>Raw t\<close> is \<^verbatim>\<open>addTransformation(t)\<close> with a string of the script,
  \<open>ResizeFill x y\<close> is \<^verbatim>\<open>resize(fill().width(x).height(y))\<close>, and \<open>FromObject l\<close> is
  \<^verbatim>\<open>addTransformation(transformationStringFromObject(l))\<close>.
\<close>

datatype transformation = Raw string | ResizeFill int int | FromObject "step list"

datatype asset = CloudinaryImage string string "transformation list"

definition cld_image :: "string \<Rightarrow> asset" where
  "cld_image publicID = CloudinaryImage CLOUD_NAME publicID []"

fun addTransformation :: "transformation \<Rightarrow> asset \<Rightarrow> asset" where
  "addTransformation t (CloudinaryImage c p ts) = CloudinaryImage c p (ts @ [t])"

fun transformations :: "asset \<Rightarrow> transformation list" where
  "transformations (CloudinaryImage c p ts) = ts"

text \<open>
  A property value of the returned object: a string, a number, or \<open>ToURL a\<close>, the string
  that \<^verbatim>\<open>a.toURL()\<close> returns.
\<close>

datatype jsval = Str string | Num int | ToURL asset

type_synonym descriptor = "(string \<times> jsval) list"

text \<open>The local \<^verbatim>\<open>frame\<close> of \<^verbatim>\<open>buildAsset\<close>.\<close>

definition frame_of :: "state \<Rightarrow> frame" where
  "frame_of s = (if square s then FRAME_SQUARE else FRAME_WIDE)"

text \<open>
  The local \<^verbatim>\<open>steps\<close> of \<^verbatim>\<open>buildAsset\<close> in the unnamed file, after all the pushes: the
  four effects in the order of the four \<^verbatim>\<open>if\<close> statements, then the two text entries.
  With the text toggle on, \<^verbatim>\<open>encodeURIComponent(state.textContent)\<close> may throw, and then
  \<^verbatim>\<open>buildAsset\<close> is left at that line.
\<close>

definition steps :: "state \<Rightarrow> error + step list" where
  "steps s =
     (let pushed =
            (if enhance s then [Effect ''enhance''] else [])
            @ (if toon s then [Effect ''cartoonify:20''] else [])
            @ (if sepia s then [Effect ''sepia''] else [])
            @ (if gray s then [Effect ''grayscale''] else [])
      in if text s then
           (case encodeURIComponent (textContent s) of
              Inl e \<Rightarrow> Inl e
            | Inr encodedText \<Rightarrow>
                Inr (pushed @
                  [Overlay (''text:Arial_34_bold:'' @ encodedText)
                     (toCloudinaryColor (Some (textColor s))),
                   Flags ''layer_apply'' ''south'' 10]))
         else Inr pushed)"

text \<open>
  The same local in the first document of \<^verbatim>\<open>script.js\<close>, where it is called
  \<^verbatim>\<open>chain\<close>. That document has no \<^verbatim>\<open>toCloudinaryColor\<close>: it reads
  \<^verbatim>\<open>const overlayColour = state.textColour\<close> (the property is spelt \<^verbatim>\<open>textColour\<close>
  there) and hands the saved colour to the SDK as it is.
\<close>

definition chain :: "state \<Rightarrow> error + step list" where
  "chain s =
     (let pushed =
            (if enhance s then [Effect ''enhance''] else [])
            @ (if toon s then [Effect ''cartoonify:20''] else [])
            @ (if sepia s then [Effect ''sepia''] else [])
            @ (if gray s then [Effect ''grayscale''] else [])
      in if text s then
           (case encodeURIComponent (textContent s) of
              Inl e \<Rightarrow> Inl e
            | Inr encodedText \<Rightarrow>
                Inr (pushed @
                  [Overlay (''text:Arial_34_bold:'' @ encodedText) (textColor s),
                   Flags ''layer_apply'' ''south'' 10]))
         else Inr pushed)"

text \<open>
  The local \<^verbatim>\<open>steps\<close> in the second document of \<^verbatim>\<open>script.js\<close>: there the text block
  stands before the four effect lines, and an empty saved text is replaced by a default.
  (Its \<^verbatim>\<open>state\<close> has one more toggle, \<^verbatim>\<open>colorize\<close>, which \<^verbatim>\<open>buildAsset\<close> never reads.)
\<close>

definition steps2 :: "state \<Rightarrow> error + step list" where
  "steps2 s =
     (let effs =
            (if enhance s then [Effect ''enhance''] else [])
            @ (if toon s then [Effect ''cartoonify:20''] else [])
            @ (if sepia s then [Effect ''sepia''] else [])
            @ (if gray s then [Effect ''grayscale''] else [])
      in if text s then
           (case encodeURIComponent
                   (if textContent s \<noteq> [] then textContent s else ''Hello Cloudinary'') of
              Inl e \<Rightarrow> Inl e
            | Inr overlayText \<Rightarrow>
                Inr ([Overlay (''text:Arial_34_bold:'' @ overlayText) (overlayColor2 s),
                      Flags ''layer_apply'' ''south'' 10] @ effs))
         else Inr effs)"

text \<open>
  The asset of \<^verbatim>\<open>buildAsset\<close> (unnamed file) when \<^verbatim>\<open>toURL\<close> is called on it; there is
  none when the text block threw.
\<close>

definition built :: "state \<Rightarrow> error + asset" where
  "built s =
     (case steps s of
        Inl e \<Rightarrow> Inl e
      | Inr l \<Rightarrow>
          Inr (let frame = frame_of s;
                   asset = (if video s then addTransformation (Raw ''f_mp4'') (cld_image PUBLIC_ID)
                            else cld_image PUBLIC_ID);
                   asset = (if video s
                            then addTransformation
                                   (Raw ''e_zoompan:from_(g_auto;zoom_3.2);du_10;fps_30'') asset
                            else asset);
                   asset = addTransformation (ResizeFill (w frame) (h frame)) asset
               in if l \<noteq> [] then addTransformation (FromObject l) asset else asset))"

text \<open>\<^verbatim>\<open>buildAsset\<close>: the object literal \<^verbatim>\<open>{type: ..., url: asset.toURL(), width: frame.w}\<close>.\<close>

definition buildAsset :: "state \<Rightarrow> error + descriptor" where
  "buildAsset s =
     (case built s of
        Inl e \<Rightarrow> Inl e
      | Inr asset \<Rightarrow>
          Inr [(''type'', Str (if video s then ''video'' else ''image'')),
               (''url'', ToURL asset),
               (''width'', Num (w (frame_of s)))])"

text \<open>
  \<^verbatim>\<open>updateImage\<close> builds the descriptor and hands it to \<^verbatim>\<open>renderAsset\<close>, which works on
  the page only; the descriptor handed over stands for the rebuild and render cycle, and
  an exception of \<^verbatim>\<open>buildAsset\<close> passes through.
\<close>

definition updateImage :: "state \<Rightarrow> error + descriptor" where
  "updateImage s = buildAsset s"

section \<open>The text dialog\<close>

text \<open>
  What ends one opening of the dialog: a click on OK, with the values the two inputs
  hold at that moment, a click on Cancel, or the dialog's \<^verbatim>\<open>close\<close> event with no click
  (the Escape key). \<^verbatim>\<open>openTextDialog\<close> resolves to \<^verbatim>\<open>{text: txt.value.trim(), color:
  col.value}\<close> in the first case and to \<^verbatim>\<open>null\<close> in the other two; the first call of
  \<^verbatim>\<open>resolve\<close> is the one that counts. The two defaults only fill the inputs in. The
  dialog is modal, so no other click of the button group is handled while it is open.
\<close>

datatype dialog_end = ClickOK string string | ClickCancel | CloseEvent

fun openTextDialog :: "string \<Rightarrow> string \<Rightarrow> dialog_end \<Rightarrow> (string \<times> string) option" where
  "openTextDialog defaultText defaultHex (ClickOK txt col) = Some (trim txt, col)"
| "openTextDialog defaultText defaultHex ClickCancel = None"
| "openTextDialog defaultText defaultHex CloseEvent = None"

section \<open>The click handler\<close>

text \<open>
  The button found by \<^verbatim>\<open>e.target.closest(".btn")\<close>, reduced to its two data attributes;
  an absent or empty attribute is \<open>None\<close>.
\<close>

record btn =
  effect :: "flag option"
  action :: "string option"

text \<open>
  The two exclusivity rules of the handler, each guarded by the clicked key and by
  \<^verbatim>\<open>next\<close>, the value just stored under that key.
\<close>

definition clear_if_set :: "flag \<Rightarrow> state \<Rightarrow> state" where
  "clear_if_set k s = (if get_flag s k then set_flag k False s else s)"

definition video_on_rule :: "flag \<Rightarrow> bool \<Rightarrow> state \<Rightarrow> state" where
  "video_on_rule effectKey next s =
     (if effectKey = Video \<and> next then fold clear_if_set [Sepia, Toon, Gray, Enhance] s else s)"

definition effect_on_rule :: "flag \<Rightarrow> bool \<Rightarrow> state \<Rightarrow> state" where
  "effect_on_rule effectKey next s =
     (if (effectKey = Sepia \<or> effectKey = Toon \<or> effectKey = Gray \<or> effectKey = Enhance) \<and> next
      then (if video s then s\<lparr>video := False\<rparr> else s)
      else s)"

definition enforce :: "flag \<Rightarrow> bool \<Rightarrow> state \<Rightarrow> state" where
  "enforce effectKey next s = effect_on_rule effectKey next (video_on_rule effectKey next s)"

text \<open>The generic toggle: flip the key, then the two rules in the order of the source.\<close>

definition toggle :: "flag \<Rightarrow> state \<Rightarrow> state" where
  "toggle effectKey s =
     (let next = \<not> get_flag s effectKey in enforce effectKey next (set_flag effectKey next s))"

text \<open>
  The handler of the button group. It takes the button clicked (\<open>None\<close> when the click
  hit no button), the way the dialog ends should this click open it, and the state; it
  returns the state it leaves and the outcome of \<^verbatim>\<open>updateImage\<close> (the descriptor
  rendered, or the exception that ended the handler), \<open>None\<close> when it returned before
  \<^verbatim>\<open>updateImage\<close>. The assignments to the state stand before the call, so they remain
  when it throws.
\<close>

definition text_click ::
  "dialog_end \<Rightarrow> state \<Rightarrow> state \<times> (error + descriptor) option" where
  "text_click d s =
     (if \<not> text s then
        (case openTextDialog (textContent s) (textColor s) d of
           None \<Rightarrow> (s, None)
         | Some (rtext, rcolor) \<Rightarrow>
             (let s1 = (if rtext \<noteq> [] then s\<lparr>textContent := rtext\<rparr> else s);
                  s2 = (if rcolor \<noteq> [] then s1\<lparr>textColor := rcolor\<rparr> else s1);
                  s3 = s2\<lparr>text := \<not> text s2\<rparr>
              in (s3, Some (updateImage s3))))
      else (let s3 = s\<lparr>text := \<not> text s\<rparr> in (s3, Some (updateImage s3))))"

definition click ::
  "btn option \<Rightarrow> dialog_end \<Rightarrow> state \<Rightarrow> state \<times> (error + descriptor) option" where
  "click target d s =
     (case target of
        None \<Rightarrow> (s, None)
      | Some b \<Rightarrow>
          if action b = Some ''reset'' then
            (let s' = resetToggles s in (s', Some (updateImage s')))
          else
            (case effect b of
               None \<Rightarrow> (s, None)
             | Some effectKey \<Rightarrow>
                 if effectKey = Text then text_click d s
                 else (let s' = toggle effectKey s in (s', Some (updateImage s')))))"

text \<open>The states the page can be in: the startup state and whatever clicks make of it.\<close>

inductive reachable :: "state \<Rightarrow> bool" where
  start: "reachable initial_state"
| step: "reachable s \<Longrightarrow> reachable (fst (click target d s))"

section \<open>Notions used to state the properties\<close>

text \<open>
  A button of the group whose \<^verbatim>\<open>data-effect\<close> names the toggle \<open>k\<close> and which carries no
  \<^verbatim>\<open>data-action\<close>.
\<close>

definition button :: "flag \<Rightarrow> btn" where
  "button k = \<lparr>effect = Some k, action = None\<rparr>"

text \<open>The video toggle is never on together with one of the four still-image effects.\<close>

definition exclusive :: "state \<Rightarrow> bool" where
  "exclusive s = (\<not> (video s \<and> (toon s \<or> sepia s \<or> gray s \<or> enhance s)))"

text \<open>The names of the effect entries of a step list, in the order they stand in it.\<close>

fun effects :: "step list \<Rightarrow> string list" where
  "effects [] = []"
| "effects (Effect e # l) = e # effects l"
| "effects (Overlay ov c # l) = effects l"
| "effects (Flags f g y # l) = effects l"

text \<open>No effect entry stands behind a text entry (an overlay or its layer entry).\<close>

fun text_after_effects :: "step list \<Rightarrow> bool" where
  "text_after_effects [] = True"
| "text_after_effects (Effect e # l) = text_after_effects l"
| "text_after_effects (Overlay ov c # l) = (effects l = [] \<and> text_after_effects l)"
| "text_after_effects (Flags f g y # l) = (effects l = [] \<and> text_after_effects l)"

text \<open>
  The instruction lists a descriptor carries: the lists handed to
  \<^verbatim>\<open>transformationStringFromObject\<close> among the transformations of the asset behind its
  \<^verbatim>\<open>url\<close>.
\<close>

fun from_objects :: "transformation list \<Rightarrow> step list" where
  "from_objects [] = []"
| "from_objects (FromObject l # ts) = l @ from_objects ts"
| "from_objects (Raw t # ts) = from_objects ts"
| "from_objects (ResizeFill x y # ts) = from_objects ts"

definition instructions :: "descriptor \<Rightarrow> step list" where
  "instructions d =
     (case map_of d ''url'' of
        Some (ToURL a) \<Rightarrow> from_objects (transformations a)
      | _ \<Rightarrow> [])"

text \<open>The colours of the overlay entries of a step list.\<close>

fun colours :: "step list \<Rightarrow> string list" where
  "colours [] = []"
| "colours (Overlay ov c # l) = c # colours l"
| "colours (Effect e # l) = colours l"
| "colours (Flags f g y # l) = colours l"

section \<open>Reset and exclusivity\<close>

lemma resetToggles_unfold:
  "resetToggles s = s\<lparr>text := False, square := False, toon := False, sepia := False,
     gray := False, video := False, enhance := False\<rparr>"
  by (simp add: resetToggles_def state_keys_def)

lemma exclusive_reset: "exclusive (resetToggles s)"
  by (simp add: resetToggles_unfold exclusive_def)

lemma exclusive_toggle: "exclusive s \<Longrightarrow> exclusive (toggle k s)"
  by (cases k)
     (auto simp: exclusive_def toggle_def enforce_def video_on_rule_def effect_on_rule_def
        clear_if_set_def Let_def)

lemma exclusive_text_click: "exclusive s \<Longrightarrow> exclusive (fst (text_click d s))"
  by (auto simp: exclusive_def text_click_def Let_def split: option.splits prod.splits)

lemma exclusive_click: "exclusive s \<Longrightarrow> exclusive (fst (click target d s))"
  by (auto simp: click_def Let_def exclusive_reset exclusive_toggle exclusive_text_click
      split: option.splits)

text \<open>
  C1. In every state reachable from the startup state by clicks (on a toggle, on the
  text button with any end of its dialog, on reset, or beside the buttons), \<open>video\<close> is not
  true together with any of \<open>toon\<close>, \<open>sepia\<close>, \<open>gray\<close>, \<open>enhance\<close>.
\<close>

theorem exclusivity_invariant:
  "reachable s \<Longrightarrow> \<not> (video s \<and> (toon s \<or> sepia s \<or> gray s \<or> enhance s))"
proof -
  assume "reachable s"
  then have "exclusive s"
  proof (induction rule: reachable.induct)
    case start
    show ?case by (simp add: exclusive_def initial_state_def)
  next
    case (step s target d)
    then show ?case by (simp add: exclusive_click)
  qed
  then show ?thesis by (simp add: exclusive_def)
qed

text \<open>
  C1 at a concrete state: a click on the cartoon button and then one on the video button
  leave video on and the cartoon effect off.
\<close>

theorem exclusivity_invariant_witness:
  "reachable (fst (click (Some (button Video)) ClickCancel
       (fst (click (Some (button Toon)) ClickCancel initial_state))))
   \<and> fst (click (Some (button Video)) ClickCancel
       (fst (click (Some (button Toon)) ClickCancel initial_state)))
     = initial_state\<lparr>video := True\<rparr>
   \<and> \<not> (video (initial_state\<lparr>video := True\<rparr>)
        \<and> (toon (initial_state\<lparr>video := True\<rparr>) \<or> sepia (initial_state\<lparr>video := True\<rparr>)
           \<or> gray (initial_state\<lparr>video := True\<rparr>) \<or> enhance (initial_state\<lparr>video := True\<rparr>)))"
proof -
  have r: "reachable (fst (click (Some (button Video)) ClickCancel
       (fst (click (Some (button Toon)) ClickCancel initial_state))))"
    by (intro reachable.intros)
  have e: "fst (click (Some (button Video)) ClickCancel
       (fst (click (Some (button Toon)) ClickCancel initial_state)))
     = initial_state\<lparr>video := True\<rparr>"
    by (simp add: click_def button_def toggle_def enforce_def video_on_rule_def
        effect_on_rule_def clear_if_set_def initial_state_def Let_def)
  from exclusivity_invariant [OF r] r e show ?thesis by simp
qed

text \<open>
  C6. After \<^verbatim>\<open>resetToggles\<close>, run from any state, each of the seven toggles is false and
  the saved text and colour are the ones from before.
\<close>

theorem reset_postcondition:
  "text (resetToggles s) = False \<and> square (resetToggles s) = False
   \<and> toon (resetToggles s) = False \<and> sepia (resetToggles s) = False
   \<and> gray (resetToggles s) = False \<and> video (resetToggles s) = False
   \<and> enhance (resetToggles s) = False
   \<and> textContent (resetToggles s) = textContent s
   \<and> textColor (resetToggles s) = textColor s"
  by (simp add: resetToggles_def state_keys_def)

text \<open>
  C9. For every state, clicked key and stored value, the two exclusivity rules give the
  same state in either order, and enforcing twice gives what enforcing once gives.
\<close>

theorem enforcement_symmetric_idempotent:
  "effect_on_rule k n (video_on_rule k n s) = video_on_rule k n (effect_on_rule k n s)
   \<and> enforce k n (enforce k n s) = enforce k n s"
  by (cases k) (auto simp: enforce_def video_on_rule_def effect_on_rule_def clear_if_set_def)

section \<open>The text button\<close>

text \<open>
  C8. With the text toggle off, a click on the text button whose dialog resolves to
  \<^verbatim>\<open>null\<close> (Cancel, or closed otherwise) leaves the whole state as it was and renders
  nothing.
\<close>

theorem cancel_atomic:
  assumes "\<not> text s" and "effect b = Some Text" and "action b \<noteq> Some ''reset''"
    and "openTextDialog (textContent s) (textColor s) d = None"
  shows "click (Some b) d s = (s, None)"
  using assms by (simp add: click_def text_click_def)

text \<open>C8 at the startup state, with the dialog closed by the Escape key.\<close>

theorem cancel_atomic_witness:
  "\<not> text initial_state \<and> effect (button Text) = Some Text
   \<and> action (button Text) \<noteq> Some ''reset''
   \<and> openTextDialog (textContent initial_state) (textColor initial_state) CloseEvent = None
   \<and> click (Some (button Text)) CloseEvent initial_state = (initial_state, None)"
proof -
  have a: "\<not> text initial_state" by (simp add: initial_state_def)
  have b: "effect (button Text) = Some Text" by (simp add: button_def)
  have c: "action (button Text) \<noteq> Some ''reset''" by (simp add: button_def)
  have d: "openTextDialog (textContent initial_state) (textColor initial_state) CloseEvent = None"
    by simp
  from cancel_atomic [OF a b c d] a b c d show ?thesis by simp
qed

text \<open>
  C10. With the text toggle off, a click on the text button whose dialog is confirmed
  turns the toggle on and renders; if the text typed trims to the empty string the saved
  text stays, and if the colour returned is empty the saved colour stays.
\<close>

theorem empty_text_preserved:
  assumes "\<not> text s" and "effect b = Some Text" and "action b \<noteq> Some ''reset''"
  shows "(trim txt = [] \<longrightarrow>
            textContent (fst (click (Some b) (ClickOK txt col) s)) = textContent s)
         \<and> (col = [] \<longrightarrow>
            textColor (fst (click (Some b) (ClickOK txt col) s)) = textColor s)
         \<and> text (fst (click (Some b) (ClickOK txt col) s)) = True
         \<and> snd (click (Some b) (ClickOK txt col) s)
             = Some (updateImage (fst (click (Some b) (ClickOK txt col) s)))"
  using assms by (simp add: click_def text_click_def Let_def)

text \<open>
  C10 at the startup state, with two blanks typed and an empty colour: only the toggle
  changes.
\<close>

theorem empty_text_preserved_witness:
  "\<not> text initial_state \<and> effect (button Text) = Some Text
   \<and> action (button Text) \<noteq> Some ''reset'' \<and> trim ''  '' = []
   \<and> fst (click (Some (button Text)) (ClickOK ''  '' []) initial_state)
       = initial_state\<lparr>text := True\<rparr>"
proof -
  have a: "\<not> text initial_state" by (simp add: initial_state_def)
  have b: "effect (button Text) = Some Text" by (simp add: button_def)
  have c: "action (button Text) \<noteq> Some ''reset''" by (simp add: button_def)
  have t: "trim ''  '' = []" by (simp add: trim_def trimEnd_def ws1_def)
  have e: "fst (click (Some (button Text)) (ClickOK ''  '' []) initial_state)
       = initial_state\<lparr>text := True\<rparr>"
    by (simp add: click_def text_click_def button_def initial_state_def t Let_def)
  from empty_text_preserved [OF a b c, of "''  ''" "[]"] a b c t e show ?thesis by simp
qed

section \<open>The built instruction list\<close>

lemma all_four_clicked:
  "fst (click (Some (button Enhance)) ClickCancel
     (fst (click (Some (button Sepia)) ClickCancel
       (fst (click (Some (button Toon)) ClickCancel
         (fst (click (Some (button Gray)) ClickCancel initial_state)))))))
   = initial_state\<lparr>toon := True, sepia := True, gray := True, enhance := True\<rparr>"
  by (simp add: click_def button_def toggle_def enforce_def video_on_rule_def
      effect_on_rule_def initial_state_def Let_def)

lemma effects_append: "effects (xs @ ys) = effects xs @ effects ys"
  by (induction xs rule: effects.induct) simp_all

lemma colours_append: "colours (xs @ ys) = colours xs @ colours ys"
  by (induction xs rule: colours.induct) simp_all

lemma from_objects_append: "from_objects (xs @ ys) = from_objects xs @ from_objects ys"
  by (induction xs rule: from_objects.induct) simp_all

text \<open>When the text block does not throw, \<^verbatim>\<open>buildAsset\<close> returns and carries the list.\<close>

lemma steps_returns:
  assumes "\<not> (text s \<and> lone_surrogate (textContent s))"
  shows "\<exists>l. steps s = Inr l"
  using assms by (simp add: steps_def encodeURIComponent_def Let_def)

lemma built_instructions:
  assumes "steps s = Inr l"
  shows "\<exists>a. built s = Inr a \<and> from_objects (transformations a) = l
           \<and> ResizeFill (w (frame_of s)) (h (frame_of s)) \<in> set (transformations a)"
  using assms by (simp add: built_def Let_def cld_image_def)

lemma buildAsset_instructions:
  assumes "steps s = Inr l"
  shows "\<exists>d. buildAsset s = Inr d \<and> instructions d = l"
proof -
  from built_instructions [OF assms] obtain a
    where a: "built s = Inr a" "from_objects (transformations a) = l"
    by blast
  then show ?thesis by (simp add: buildAsset_def instructions_def)
qed

lemma buildAsset_throws:
  assumes "text s" and "lone_surrogate (textContent s)"
  shows "buildAsset s = Inl URIError"
  using assms by (simp add: buildAsset_def built_def steps_def encodeURIComponent_def Let_def)

lemma steps_effects:
  assumes "steps s = Inr l"
  shows "effects l = map snd (filter fst [(enhance s, ''enhance''),
       (toon s, ''cartoonify:20''), (sepia s, ''sepia''), (gray s, ''grayscale'')])"
  using assms
  by (auto simp: steps_def Let_def effects_append split: if_splits sum.splits)

text \<open>
  C2 as stated fails: in a state with all four effects on, the text toggle on and a
  saved text that is a lone surrogate, \<^verbatim>\<open>buildAsset\<close> throws and emits no list.
\<close>

theorem no_list_for_lone_surrogate:
  "buildAsset \<lparr>text = True, square = False, toon = True, sepia = True, gray = True,
     video = False, enhance = True, textContent = [CHR 0xED, CHR 0xA0, CHR 0x80],
     textColor = ''#ffffff''\<rparr> = Inl URIError"
  by (simp add: buildAsset_def built_def steps_def encodeURIComponent_def)

text \<open>
  C2, amended. For every state in which the text toggle is off or the saved text holds
  no lone surrogate, \<^verbatim>\<open>buildAsset\<close> returns a descriptor, and the effect entries of the
  instruction list it carries are the enabled ones among enhance, cartoonify:20, sepia,
  grayscale, in this order, whatever the order of the clicks that enabled them; with all
  four enabled they are exactly these four.
\<close>

theorem fixed_effect_order:
  assumes "\<not> (text s \<and> lone_surrogate (textContent s))"
  shows "\<exists>d. buildAsset s = Inr d
     \<and> effects (instructions d) = map snd (filter fst [(enhance s, ''enhance''),
          (toon s, ''cartoonify:20''), (sepia s, ''sepia''), (gray s, ''grayscale'')])
     \<and> subseq (effects (instructions d))
          [''enhance'', ''cartoonify:20'', ''sepia'', ''grayscale'']
     \<and> (enhance s \<and> toon s \<and> sepia s \<and> gray s \<longrightarrow>
          effects (instructions d) = [''enhance'', ''cartoonify:20'', ''sepia'', ''grayscale''])"
proof -
  from steps_returns [OF assms] obtain l where l: "steps s = Inr l" by blast
  from buildAsset_instructions [OF l] obtain d
    where d: "buildAsset s = Inr d" "instructions d = l" by blast
  have e: "effects (instructions d) = map snd (filter fst [(enhance s, ''enhance''),
       (toon s, ''cartoonify:20''), (sepia s, ''sepia''), (gray s, ''grayscale'')])"
    using steps_effects [OF l] d by simp
  have "subseq (effects (instructions d))
          [''enhance'', ''cartoonify:20'', ''sepia'', ''grayscale'']"
    unfolding e by simp
  moreover have "enhance s \<and> toon s \<and> sepia s \<and> gray s \<longrightarrow>
      effects (instructions d) = [''enhance'', ''cartoonify:20'', ''sepia'', ''grayscale'']"
    unfolding e by simp
  ultimately show ?thesis using d e by blast
qed

text \<open>
  The amended C2 at the state reached by clicking gray, then toon, then sepia, then
  enhance: all four toggles are on and the effect entries stand in the fixed order.
\<close>

theorem fixed_effect_order_witness:
  "fst (click (Some (button Enhance)) ClickCancel
     (fst (click (Some (button Sepia)) ClickCancel
       (fst (click (Some (button Toon)) ClickCancel
         (fst (click (Some (button Gray)) ClickCancel initial_state)))))))
     = initial_state\<lparr>toon := True, sepia := True, gray := True, enhance := True\<rparr>
   \<and> \<not> (text (initial_state\<lparr>toon := True, sepia := True, gray := True, enhance := True\<rparr>)
        \<and> lone_surrogate (textContent
             (initial_state\<lparr>toon := True, sepia := True, gray := True, enhance := True\<rparr>)))
   \<and> enhance (initial_state\<lparr>toon := True, sepia := True, gray := True, enhance := True\<rparr>)
   \<and> toon (initial_state\<lparr>toon := True, sepia := True, gray := True, enhance := True\<rparr>)
   \<and> sepia (initial_state\<lparr>toon := True, sepia := True, gray := True, enhance := True\<rparr>)
   \<and> gray (initial_state\<lparr>toon := True, sepia := True, gray := True, enhance := True\<rparr>)
   \<and> (\<exists>d. buildAsset (initial_state\<lparr>toon := True, sepia := True, gray := True,
               enhance := True\<rparr>) = Inr d
          \<and> effects (instructions d)
              = [''enhance'', ''cartoonify:20'', ''sepia'', ''grayscale''])"
proof -
  have h: "\<not> (text (initial_state\<lparr>toon := True, sepia := True, gray := True, enhance := True\<rparr>)
        \<and> lone_surrogate (textContent
             (initial_state\<lparr>toon := True, sepia := True, gray := True, enhance := True\<rparr>)))"
    by (simp add: initial_state_def)
  from fixed_effect_order [OF h] obtain d
    where "buildAsset (initial_state\<lparr>toon := True, sepia := True, gray := True,
               enhance := True\<rparr>) = Inr d"
      and "effects (instructions d) = map snd (filter fst
          [(enhance (initial_state\<lparr>toon := True, sepia := True, gray := True,
               enhance := True\<rparr>), ''enhance''),
           (toon (initial_state\<lparr>toon := True, sepia := True, gray := True,
               enhance := True\<rparr>), ''cartoonify:20''),
           (sepia (initial_state\<lparr>toon := True, sepia := True, gray := True,
               enhance := True\<rparr>), ''sepia''),
           (gray (initial_state\<lparr>toon := True, sepia := True, gray := True,
               enhance := True\<rparr>), ''grayscale'')])"
    by blast
  then have "\<exists>d. buildAsset (initial_state\<lparr>toon := True, sepia := True, gray := True,
               enhance := True\<rparr>) = Inr d
          \<and> effects (instructions d)
              = [''enhance'', ''cartoonify:20'', ''sepia'', ''grayscale'']"
    by simp
  with h show ?thesis by (simp add: all_four_clicked)
qed

text \<open>
  The order of the effect entries is the same in both documents of \<^verbatim>\<open>script.js\<close>.
\<close>

lemma chain_effects:
  assumes "chain s = Inr l"
  shows "effects l = map snd (filter fst [(enhance s, ''enhance''),
       (toon s, ''cartoonify:20''), (sepia s, ''sepia''), (gray s, ''grayscale'')])"
  using assms
  by (auto simp: chain_def Let_def effects_append split: if_splits sum.splits)

lemma steps2_effects:
  assumes "steps2 s = Inr l"
  shows "effects l = map snd (filter fst [(enhance s, ''enhance''),
       (toon s, ''cartoonify:20''), (sepia s, ''sepia''), (gray s, ''grayscale'')])"
  using assms
  by (auto simp: steps2_def Let_def split: if_splits sum.splits)

lemma steps_text_last: "steps s = Inr l \<Longrightarrow> text_after_effects l"
  by (auto simp: steps_def Let_def split: if_splits sum.splits)

lemma chain_text_last: "chain s = Inr l \<Longrightarrow> text_after_effects l"
  by (auto simp: chain_def Let_def split: if_splits sum.splits)

text \<open>
  C3. In the second document of \<^verbatim>\<open>script.js\<close> the text block of \<^verbatim>\<open>buildAsset\<close> stands
  before the effect lines: with text and sepia on, the built list is the overlay, its
  layer entry and then the sepia effect, so the text entries do not come after the
  effect. (In the unnamed file and in the first document they do, see \<open>steps_text_last\<close>
  and \<open>chain_text_last\<close>.)
\<close>

theorem text_first_in_second_document:
  "steps2 \<lparr>text = True, square = False, toon = False, sepia = True,
     gray = False, video = False, enhance = False,
     textContent = ''Hello Cloudinary'', textColor = ''#ffffff''\<rparr>
   = Inr [Overlay ''text:Arial_34_bold:Hello%20Cloudinary'' ''rgb:ffffff'',
      Flags ''layer_apply'' ''south'' 10, Effect ''sepia'']
   \<and> \<not> text_after_effects
        [Overlay ''text:Arial_34_bold:Hello%20Cloudinary'' ''rgb:ffffff'',
         Flags ''layer_apply'' ''south'' 10, Effect ''sepia'']"
  by (simp add: steps2_def overlayColor2_def encodeURIComponent_def encode_byte_def
      unreserved_def hexdigit_def)

section \<open>The overlay colour\<close>

text \<open>
  C4. \<^verbatim>\<open>toCloudinaryColor\<close> maps a string that starts with \<^verbatim>\<open>#\<close> to \<^verbatim>\<open>rgb:\<close> followed
  by the rest, the empty or absent string to \<^verbatim>\<open>white\<close>, and every other string to itself.
  It is the conversion used for the text overlay: when the text toggle is on and the
  saved text can be encoded, the one overlay entry of the list \<^verbatim>\<open>buildAsset\<close> emits has
  the saved colour converted this way. The second document of \<^verbatim>\<open>script.js\<close> computes the
  same value inline.
\<close>

theorem colour_conversion:
  "toCloudinaryColor (Some (CHR ''#'' # r)) = ''rgb:'' @ r
   \<and> toCloudinaryColor (Some []) = ''white''
   \<and> toCloudinaryColor None = ''white''
   \<and> (v \<noteq> [] \<and> hd v \<noteq> CHR ''#'' \<longrightarrow> toCloudinaryColor (Some v) = v)
   \<and> (text s \<and> \<not> lone_surrogate (textContent s) \<longrightarrow>
        (\<exists>d. buildAsset s = Inr d
           \<and> colours (instructions d) = [toCloudinaryColor (Some (textColor s))]))
   \<and> overlayColor2 s = toCloudinaryColor (Some (textColor s))"
proof -
  have conv: "v \<noteq> [] \<and> hd v \<noteq> CHR ''#'' \<longrightarrow> toCloudinaryColor (Some v) = v"
    by (cases v) simp_all
  have inline: "overlayColor2 s = toCloudinaryColor (Some (textColor s))"
    by (cases "textColor s") (simp_all add: overlayColor2_def)
  have used: "\<exists>d. buildAsset s = Inr d
           \<and> colours (instructions d) = [toCloudinaryColor (Some (textColor s))]"
    if t: "text s" and ok: "\<not> lone_surrogate (textContent s)"
  proof -
    from ok steps_returns [of s] obtain l where l: "steps s = Inr l" by blast
    from buildAsset_instructions [OF l] obtain d
      where d: "buildAsset s = Inr d" "instructions d = l" by blast
    have "colours l = [toCloudinaryColor (Some (textColor s))]"
      using l t ok
      by (auto simp: steps_def Let_def encodeURIComponent_def colours_append
          split: if_splits)
    with d show ?thesis by auto
  qed
  from conv inline used show ?thesis by simp
qed

text \<open>
  C4 at the named colour \<^verbatim>\<open>red\<close> and at the startup state with the text toggle on,
  where the saved colour \<^verbatim>\<open>#ffffff\<close> reaches the overlay as \<^verbatim>\<open>rgb:ffffff\<close>.
\<close>

theorem colour_conversion_witness:
  "''red'' \<noteq> [] \<and> hd ''red'' \<noteq> CHR ''#'' \<and> toCloudinaryColor (Some ''red'') = ''red''
   \<and> text (initial_state\<lparr>text := True\<rparr>)
   \<and> \<not> lone_surrogate (textContent (initial_state\<lparr>text := True\<rparr>))
   \<and> (\<exists>d. buildAsset (initial_state\<lparr>text := True\<rparr>) = Inr d
          \<and> colours (instructions d) = [''rgb:ffffff''])"
  using colour_conversion [of "''ffffff''" "''red''" "initial_state\<lparr>text := True\<rparr>"]
  by (simp add: initial_state_def)

section \<open>The descriptor\<close>

text \<open>
  C5 as stated fails: the object returned by \<^verbatim>\<open>buildAsset\<close> has no property for the
  frame's height.
\<close>

theorem descriptor_has_no_height:
  "buildAsset initial_state
     = Inr [(''type'', Str ''image''),
            (''url'', ToURL (CloudinaryImage ''demo'' ''sample'' [ResizeFill 500 333])),
            (''width'', Num 500)]
   \<and> map_of [(''type'', Str ''image''),
            (''url'', ToURL (CloudinaryImage ''demo'' ''sample'' [ResizeFill 500 333])),
            (''width'', Num 500)] ''height'' = None"
  by (simp add: buildAsset_def built_def steps_def frame_of_def FRAME_WIDE_def cld_image_def
      CLOUD_NAME_def PUBLIC_ID_def initial_state_def)

text \<open>
  C5, amended. For every state in which the text toggle is off or the saved text holds
  no lone surrogate, \<^verbatim>\<open>buildAsset\<close> returns an object with exactly the properties
  \<^verbatim>\<open>type\<close> (video or image), \<^verbatim>\<open>url\<close> and \<^verbatim>\<open>width\<close>, the width being the frame's: 333
  when \<open>square\<close> is on and 500 otherwise. The frame is (333,333) when \<open>square\<close> is on and
  (500,333) otherwise; its height is not in the object and is used in the fill resize of
  the asset only.
\<close>

theorem descriptor_shape:
  assumes "\<not> (text s \<and> lone_surrogate (textContent s))"
  shows "\<exists>d a. buildAsset s = Inr d \<and> built s = Inr a
     \<and> map fst d = [''type'', ''url'', ''width'']
     \<and> map_of d ''type'' = Some (Str (if video s then ''video'' else ''image''))
     \<and> map_of d ''url'' = Some (ToURL a)
     \<and> map_of d ''width'' = Some (Num (if square s then 333 else 500))
     \<and> map_of d ''height'' = None
     \<and> frame_of s = (if square s then \<lparr>w = 333, h = 333\<rparr> else \<lparr>w = 500, h = 333\<rparr>)
     \<and> ResizeFill (w (frame_of s)) (h (frame_of s)) \<in> set (transformations a)"
proof -
  from steps_returns [OF assms] obtain l where l: "steps s = Inr l" by blast
  from built_instructions [OF l] obtain a
    where a: "built s = Inr a"
      "ResizeFill (w (frame_of s)) (h (frame_of s)) \<in> set (transformations a)"
    by blast
  have f: "frame_of s = (if square s then \<lparr>w = 333, h = 333\<rparr> else \<lparr>w = 500, h = 333\<rparr>)"
    by (simp add: frame_of_def FRAME_SQUARE_def FRAME_WIDE_def)
  have "buildAsset s = Inr [(''type'', Str (if video s then ''video'' else ''image'')),
               (''url'', ToURL a), (''width'', Num (w (frame_of s)))]"
    using a by (simp add: buildAsset_def)
  with a f show ?thesis by simp
qed

text \<open>
  The amended C5 at the startup state with the square and the text toggle on: the
  saved text can be encoded, and the descriptor has type image, width 333 and no height.
\<close>

theorem descriptor_shape_witness:
  "\<not> (text (initial_state\<lparr>text := True, square := True\<rparr>)
        \<and> lone_surrogate (textContent (initial_state\<lparr>text := True, square := True\<rparr>)))
   \<and> (\<exists>d. buildAsset (initial_state\<lparr>text := True, square := True\<rparr>) = Inr d
          \<and> map fst d = [''type'', ''url'', ''width'']
          \<and> map_of d ''type'' = Some (Str ''image'')
          \<and> map_of d ''width'' = Some (Num 333)
          \<and> map_of d ''height'' = None)"
proof -
  have h: "\<not> (text (initial_state\<lparr>text := True, square := True\<rparr>)
        \<and> lone_surrogate (textContent (initial_state\<lparr>text := True, square := True\<rparr>)))"
    by (simp add: initial_state_def)
  from descriptor_shape [OF h] h show ?thesis
    by (auto simp: initial_state_def)
qed

section \<open>The three-click scenario\<close>

text \<open>
  C7 as stated fails at its first step: the descriptor rendered after the click on
  square reports no height, so it does not report the dimensions (333,333).
\<close>

theorem scenario_descriptor_has_no_height:
  "snd (click (Some (button Square)) ClickCancel initial_state)
     = Some (Inr [(''type'', Str ''image''),
            (''url'', ToURL (CloudinaryImage ''demo'' ''sample'' [ResizeFill 333 333])),
            (''width'', Num 333)])
   \<and> map_of [(''type'', Str ''image''),
            (''url'', ToURL (CloudinaryImage ''demo'' ''sample'' [ResizeFill 333 333])),
            (''width'', Num 333)] ''height'' = None"
  by (simp add: click_def button_def toggle_def enforce_def video_on_rule_def
      effect_on_rule_def updateImage_def buildAsset_def built_def steps_def frame_of_def
      FRAME_SQUARE_def cld_image_def CLOUD_NAME_def PUBLIC_ID_def initial_state_def Let_def)

text \<open>
  C7, amended. From the startup state, a click on square renders a descriptor of type
  image and width 333, whose asset is resized to 333 by 333; a click on video then
  renders type video, width still 333 and the same resize; a click on sepia then leaves
  \<open>video\<close> false and \<open>sepia\<close> true, and the built list holds exactly one entry, the effect
  sepia.
\<close>

theorem three_click_scenario:
  "click (Some (button Square)) ClickCancel initial_state
     = (initial_state\<lparr>square := True\<rparr>, Some (buildAsset (initial_state\<lparr>square := True\<rparr>)))
   \<and> buildAsset (initial_state\<lparr>square := True\<rparr>)
     = Inr [(''type'', Str ''image''),
        (''url'', ToURL (CloudinaryImage ''demo'' ''sample'' [ResizeFill 333 333])),
        (''width'', Num 333)]
   \<and> click (Some (button Video)) ClickCancel (initial_state\<lparr>square := True\<rparr>)
     = (initial_state\<lparr>square := True, video := True\<rparr>,
        Some (buildAsset (initial_state\<lparr>square := True, video := True\<rparr>)))
   \<and> buildAsset (initial_state\<lparr>square := True, video := True\<rparr>)
     = Inr [(''type'', Str ''video''),
        (''url'', ToURL (CloudinaryImage ''demo'' ''sample''
           [Raw ''f_mp4'', Raw ''e_zoompan:from_(g_auto;zoom_3.2);du_10;fps_30'',
            ResizeFill 333 333])),
        (''width'', Num 333)]
   \<and> click (Some (button Sepia)) ClickCancel (initial_state\<lparr>square := True, video := True\<rparr>)
     = (initial_state\<lparr>square := True, sepia := True\<rparr>,
        Some (buildAsset (initial_state\<lparr>square := True, sepia := True\<rparr>)))
   \<and> video (initial_state\<lparr>square := True, sepia := True\<rparr>) = False
   \<and> sepia (initial_state\<lparr>square := True, sepia := True\<rparr>) = True
   \<and> steps (initial_state\<lparr>square := True, sepia := True\<rparr>) = Inr [Effect ''sepia'']
   \<and> buildAsset (initial_state\<lparr>square := True, sepia := True\<rparr>)
     = Inr [(''type'', Str ''image''),
        (''url'', ToURL (CloudinaryImage ''demo'' ''sample''
           [ResizeFill 333 333, FromObject [Effect ''sepia'']])),
        (''width'', Num 333)]"
  by (simp add: click_def button_def toggle_def enforce_def video_on_rule_def
      effect_on_rule_def clear_if_set_def updateImage_def buildAsset_def built_def steps_def
      frame_of_def FRAME_SQUARE_def FRAME_WIDE_def cld_image_def CLOUD_NAME_def PUBLIC_ID_def
      initial_state_def Let_def)

end
